theory Spec2Isabelle
  imports Complex_Main
begin

section \<open>Spike-to-current transformers of SpikingFlow.connection.transform\<close>

text \<open>
  The module defines a base class and three subclasses of \<^verbatim>\<open>torch.nn.Module\<close>:
  \<^verbatim>\<open>SpikeCurrent\<close>, \<^verbatim>\<open>ExpDecayCurrent\<close> and \<^verbatim>\<open>STPTransformer\<close>. Each has a
  \<^verbatim>\<open>forward\<close> (the step) and a \<^verbatim>\<open>reset\<close>.

  Numbers. Python floats and the float32 elements of a tensor are embedded as \<open>real\<close>:
  the arithmetic of the source is kept operation by operation, rounding and overflow are
  not represented. Nothing below speaks about infinities or NaN.

  Values. An attribute of an instance holds either a Python number (\<^verbatim>\<open>self.i = 0\<close>,
  \<^verbatim>\<open>self.x = 1.0\<close>) or a tensor. Tensors are embedded with rank one: a tensor of shape
  \<open>[n]\<close> is a list of \<open>n\<close> reals, one entry for each simulated unit. A spike sample is
  a boolean tensor of shape \<open>[n]\<close>, a \<open>bool list\<close>.
\<close>

datatype val = Scalar real | Tensor "real list"

text \<open>
  Outcomes of a call that does not return. \<open>ZeroDivisionError\<close> is Python's, raised by
  \<^verbatim>\<open>/\<close> on two Python numbers. \<open>RuntimeError\<close> is the one torch raises when two shapes
  cannot be broadcast, or when the result of an in-place operation does not have the
  shape of its target. \<open>NotImplementedError\<close> is raised by the base class.
  \<open>NonFinite\<close> is not an exception: torch divides a tensor by zero without raising and
  yields infinities or NaN, which \<open>real\<close> cannot hold, so the embedding stops there
  and says so.
\<close>

datatype py_error = ZeroDivisionError | RuntimeError | NotImplementedError | NonFinite

definition py_then :: "py_error + 'a \<Rightarrow> ('a \<Rightarrow> py_error + 'b) \<Rightarrow> py_error + 'b" where
  "py_then m k = (case m of Inl e \<Rightarrow> Inl e | Inr v \<Rightarrow> k v)"

subsection \<open>The arithmetic of Python numbers and tensors\<close>

text \<open>\<^verbatim>\<open>in_spike.float()\<close>: a boolean tensor becomes a tensor of 0.0 and 1.0.\<close>

definition tensor_float :: "bool list \<Rightarrow> val" where
  "tensor_float in_spike = Tensor (map of_bool in_spike)"

text \<open>
  A binary operator \<^verbatim>\<open>a op b\<close>. A Python number combines with every entry of a tensor.
  Two tensors of shapes \<open>[n]\<close> and \<open>[m]\<close> are broadcast: equal sizes combine entry
  by entry, a size of one is stretched to the other size, anything else raises.
\<close>

fun broadcast :: "(real \<Rightarrow> real \<Rightarrow> real) \<Rightarrow> val \<Rightarrow> val \<Rightarrow> py_error + val" where
  "broadcast f (Scalar a) (Scalar b) = Inr (Scalar (f a b))"
| "broadcast f (Scalar a) (Tensor ys) = Inr (Tensor (map (f a) ys))"
| "broadcast f (Tensor xs) (Scalar b) = Inr (Tensor (map (\<lambda>x. f x b) xs))"
| "broadcast f (Tensor xs) (Tensor ys) =
     (if length xs = length ys then Inr (Tensor (map2 f xs ys))
      else if length xs = 1 then Inr (Tensor (map (f (hd xs)) ys))
      else if length ys = 1 then Inr (Tensor (map (\<lambda>x. f x (hd ys)) xs))
      else Inl RuntimeError)"

definition py_add :: "val \<Rightarrow> val \<Rightarrow> py_error + val" where
  "py_add = broadcast (+)"

definition py_sub :: "val \<Rightarrow> val \<Rightarrow> py_error + val" where
  "py_sub = broadcast (-)"

definition py_mul :: "val \<Rightarrow> val \<Rightarrow> py_error + val" where
  "py_mul = broadcast (*)"

fun py_neg :: "val \<Rightarrow> val" where
  "py_neg (Scalar a) = Scalar (- a)"
| "py_neg (Tensor xs) = Tensor (map uminus xs)"

text \<open>
  \<^verbatim>\<open>a / t\<close> where \<open>t\<close> is a Python number (the time constants are). On a Python
  number Python raises for \<open>t = 0\<close>; on a tensor torch does not raise.
\<close>

fun py_truediv :: "val \<Rightarrow> real \<Rightarrow> py_error + val" where
  "py_truediv (Scalar a) t = (if t = 0 then Inl ZeroDivisionError else Inr (Scalar (a / t)))"
| "py_truediv (Tensor xs) t = (if t = 0 then Inl NonFinite else Inr (Tensor (map (\<lambda>x. x / t) xs)))"

text \<open>
  \<^verbatim>\<open>a += b\<close>. A Python number has no in-place addition, so the attribute is rebound to
  \<^verbatim>\<open>a + b\<close>. A tensor is updated in place and keeps its shape: \<open>b\<close> must broadcast
  to the shape of \<open>a\<close>, or torch raises.
\<close>

fun py_iadd :: "val \<Rightarrow> val \<Rightarrow> py_error + val" where
  "py_iadd (Scalar a) b = py_add (Scalar a) b"
| "py_iadd (Tensor xs) (Scalar b) = Inr (Tensor (map (\<lambda>x. x + b) xs))"
| "py_iadd (Tensor xs) (Tensor ys) =
     (if length ys = length xs then Inr (Tensor (map2 (+) xs ys))
      else if length ys = 1 then Inr (Tensor (map (\<lambda>x. x + hd ys) xs))
      else Inl RuntimeError)"

text \<open>\<^verbatim>\<open>t.fill_(c)\<close>: every entry of the tensor becomes \<open>c\<close>, the shape stays.\<close>

fun fill :: "val \<Rightarrow> real \<Rightarrow> val" where
  "fill (Scalar a) c = Scalar a"
| "fill (Tensor xs) c = Tensor (replicate (length xs) c)"

subsection \<open>BaseTransformer\<close>

definition BaseTransformer_forward :: "'s \<Rightarrow> bool list \<Rightarrow> (py_error + val) \<times> 's" where
  "BaseTransformer_forward self in_spike = (Inl NotImplementedError, self)"

definition BaseTransformer_reset :: "'s \<Rightarrow> 's" where
  "BaseTransformer_reset self = self"

subsection \<open>SpikeCurrent\<close>

record SpikeCurrent =
  sc_amplitude :: real

definition SpikeCurrent_init :: "real \<Rightarrow> py_error + SpikeCurrent" where
  "SpikeCurrent_init amplitude = Inr \<lparr>sc_amplitude = amplitude\<rparr>"

definition SpikeCurrent_forward :: "SpikeCurrent \<Rightarrow> bool list \<Rightarrow> (py_error + val) \<times> SpikeCurrent" where
  "SpikeCurrent_forward self in_spike =
     (py_mul (tensor_float in_spike) (Scalar (sc_amplitude self)), self)"

text \<open>The class does not define \<^verbatim>\<open>reset\<close>: it inherits the one of the base class.\<close>

definition SpikeCurrent_reset :: "SpikeCurrent \<Rightarrow> SpikeCurrent" where
  "SpikeCurrent_reset self = BaseTransformer_reset self"

subsection \<open>ExpDecayCurrent\<close>

record ExpDecayCurrent =
  edc_tau :: real
  edc_amplitude :: real
  edc_i :: val

text \<open>The constructor stores its arguments and sets \<^verbatim>\<open>self.i = 0\<close>; it has no other statement.\<close>

definition ExpDecayCurrent_init :: "real \<Rightarrow> real \<Rightarrow> py_error + ExpDecayCurrent" where
  "ExpDecayCurrent_init tau amplitude =
     Inr \<lparr>edc_tau = tau, edc_amplitude = amplitude, edc_i = Scalar 0\<rparr>"

text \<open>
  \<^verbatim>\<open>
  in_spike_float = in_spike.float()
  i_decay = -self.i / self.tau
  self.i += i_decay * (1 - in_spike_float) + self.amplitude * in_spike_float
  return self.i
  \<close>
  \<open>ExpDecayCurrent_new_i\<close> is the value the third line stores, its operations in
  the order Python evaluates them. The result of \<open>forward\<close> pairs what the call
  returns or raises with the instance after the call. The only assignment to an attribute
  is the last operation of the third line, so a call that raises leaves the instance as
  it was.

  The returned object is the tensor held in \<^verbatim>\<open>self.i\<close>, which later calls update in
  place; the embedding returns its value at the time of the return.
\<close>

definition ExpDecayCurrent_new_i :: "ExpDecayCurrent \<Rightarrow> val \<Rightarrow> py_error + val" where
  "ExpDecayCurrent_new_i self in_spike_float =
     py_then (py_truediv (py_neg (edc_i self)) (edc_tau self)) (\<lambda>i_decay.
     py_then (py_sub (Scalar 1) in_spike_float) (\<lambda>no_spike.
     py_then (py_mul i_decay no_spike) (\<lambda>decayed.
     py_then (py_mul (Scalar (edc_amplitude self)) in_spike_float) (\<lambda>jump.
     py_then (py_add decayed jump) (\<lambda>delta.
     py_iadd (edc_i self) delta)))))"

definition ExpDecayCurrent_forward ::
  "ExpDecayCurrent \<Rightarrow> bool list \<Rightarrow> (py_error + val) \<times> ExpDecayCurrent" where
  "ExpDecayCurrent_forward self in_spike =
     (let in_spike_float = tensor_float in_spike
      in case ExpDecayCurrent_new_i self in_spike_float of
           Inl e \<Rightarrow> (Inl e, self)
         | Inr v \<Rightarrow> (Inr v, self\<lparr>edc_i := v\<rparr>))"

text \<open>\<^verbatim>\<open>self.i = 0\<close>\<close>

definition ExpDecayCurrent_reset :: "ExpDecayCurrent \<Rightarrow> ExpDecayCurrent" where
  "ExpDecayCurrent_reset self = self\<lparr>edc_i := Scalar 0\<rparr>"

subsection \<open>STPTransformer\<close>

record STPTransformer =
  stp_u_base :: real
  stp_tau_f :: real
  stp_tau_d :: real
  stp_x :: val
  stp_u :: val

definition STPTransformer_init :: "real \<Rightarrow> real \<Rightarrow> real \<Rightarrow> py_error + STPTransformer" where
  "STPTransformer_init u_base tau_f tau_d =
     Inr \<lparr>stp_u_base = u_base, stp_tau_f = tau_f, stp_tau_d = tau_d,
          stp_x = Scalar 1, stp_u = Scalar u_base\<rparr>"

text \<open>
  \<^verbatim>\<open>
  in_spike_float = in_spike.float()
  # First calculate x using previouse u
  x_decay = (1.0 - self.x)/self.tau_d
  self.x += x_decay - self.x * in_spike_float * self.u
  u_decay = (self.u_base - self.u) / self.tau_f
  self.u += u_decay + self.u_base * (1-self.u) * in_spike_float
  return self.u * self.x * in_spike_float
  \<close>
  \<open>STPTransformer_new_x\<close> and \<open>STPTransformer_new_u\<close> are the values the two
  augmented assignments store, \<open>STPTransformer_output\<close> is the returned expression.
  There are two assignments. A call that raises in the first two lines leaves the
  instance as it was; one that raises in the next two has already stored the new
  \<open>x\<close>; one that raises in the last line has stored both.
\<close>

definition STPTransformer_new_x :: "STPTransformer \<Rightarrow> val \<Rightarrow> py_error + val" where
  "STPTransformer_new_x self in_spike_float =
     py_then (py_sub (Scalar 1) (stp_x self)) (\<lambda>rest.
     py_then (py_truediv rest (stp_tau_d self)) (\<lambda>x_decay.
     py_then (py_mul (stp_x self) in_spike_float) (\<lambda>spiked.
     py_then (py_mul spiked (stp_u self)) (\<lambda>used.
     py_then (py_sub x_decay used) (\<lambda>delta.
     py_iadd (stp_x self) delta)))))"

definition STPTransformer_new_u :: "STPTransformer \<Rightarrow> val \<Rightarrow> py_error + val" where
  "STPTransformer_new_u self in_spike_float =
     py_then (py_sub (Scalar (stp_u_base self)) (stp_u self)) (\<lambda>gap.
     py_then (py_truediv gap (stp_tau_f self)) (\<lambda>u_decay.
     py_then (py_sub (Scalar 1) (stp_u self)) (\<lambda>room.
     py_then (py_mul (Scalar (stp_u_base self)) room) (\<lambda>gain.
     py_then (py_mul gain in_spike_float) (\<lambda>jump.
     py_then (py_add u_decay jump) (\<lambda>delta.
     py_iadd (stp_u self) delta))))))"

definition STPTransformer_output :: "STPTransformer \<Rightarrow> val \<Rightarrow> py_error + val" where
  "STPTransformer_output self in_spike_float =
     py_then (py_mul (stp_u self) (stp_x self)) (\<lambda>ux. py_mul ux in_spike_float)"

definition STPTransformer_forward ::
  "STPTransformer \<Rightarrow> bool list \<Rightarrow> (py_error + val) \<times> STPTransformer" where
  "STPTransformer_forward self in_spike =
     (let in_spike_float = tensor_float in_spike
      in case STPTransformer_new_x self in_spike_float of
           Inl e \<Rightarrow> (Inl e, self)
         | Inr x' \<Rightarrow>
             (let self1 = self\<lparr>stp_x := x'\<rparr>
              in case STPTransformer_new_u self1 in_spike_float of
                   Inl e \<Rightarrow> (Inl e, self1)
                 | Inr u' \<Rightarrow>
                     (let self2 = self1\<lparr>stp_u := u'\<rparr>
                      in (STPTransformer_output self2 in_spike_float, self2))))"

text \<open>
  \<^verbatim>\<open>
  if not isinstance(self.x, float):
      self.x.fill_(1.0)
  if not isinstance(self.u, float):
      self.u.fill_(self.u_base)
  \<close>
\<close>

definition STPTransformer_reset :: "STPTransformer \<Rightarrow> STPTransformer" where
  "STPTransformer_reset self =
     self\<lparr>stp_x := fill (stp_x self) 1, stp_u := fill (stp_u self) (stp_u_base self)\<rparr>"

subsection \<open>Sequences of calls\<close>

text \<open>
  A caller that presents one spike sample after the other to the same instance and
  collects what each call returns or raises. A call that raises leaves the instance in
  the state \<open>forward\<close> reports, and the next call goes on from there.
\<close>

fun steps :: "('s \<Rightarrow> bool list \<Rightarrow> (py_error + val) \<times> 's) \<Rightarrow> 's \<Rightarrow> bool list list
    \<Rightarrow> (py_error + val) list \<times> 's" where
  "steps forward self [] = ([], self)"
| "steps forward self (in_spike # rest) =
     (case forward self in_spike of (out, self') \<Rightarrow>
        (case steps forward self' rest of (outs, self'') \<Rightarrow> (out # outs, self'')))"

text \<open>A history of calls of either method, and the instance it leaves behind.\<close>

datatype call = Forward "bool list" | Reset

fun after_call :: "('s \<Rightarrow> bool list \<Rightarrow> (py_error + val) \<times> 's) \<Rightarrow> ('s \<Rightarrow> 's) \<Rightarrow> 's \<Rightarrow> call \<Rightarrow> 's" where
  "after_call forward reset self (Forward in_spike) = snd (forward self in_spike)"
| "after_call forward reset self Reset = reset self"

definition after_calls :: "('s \<Rightarrow> bool list \<Rightarrow> (py_error + val) \<times> 's) \<Rightarrow> ('s \<Rightarrow> 's) \<Rightarrow> 's \<Rightarrow> call list \<Rightarrow> 's" where
  "after_calls forward reset self calls = foldl (after_call forward reset) self calls"

subsection \<open>Vocabulary of the properties\<close>

text \<open>
  What an attribute holds for each of \<open>n\<close> units: a Python number is the same for
  all of them. \<open>fits n v\<close>: the value is a Python number or a tensor of \<open>n\<close> units.
  \<open>entries v\<close>: the numbers the value holds. \<open>unit_of k v\<close>: what unit \<open>k\<close> alone
  sees of the value, as a value of a one-unit instance.
\<close>

fun units :: "nat \<Rightarrow> val \<Rightarrow> real list" where
  "units n (Scalar a) = replicate n a"
| "units n (Tensor xs) = xs"

fun fits :: "nat \<Rightarrow> val \<Rightarrow> bool" where
  "fits n (Scalar a) = True"
| "fits n (Tensor xs) = (length xs = n)"

fun entries :: "val \<Rightarrow> real list" where
  "entries (Scalar a) = [a]"
| "entries (Tensor xs) = xs"

fun unit_of :: "nat \<Rightarrow> val \<Rightarrow> val" where
  "unit_of k (Scalar a) = Scalar a"
| "unit_of k (Tensor xs) = Tensor [xs ! k]"

text \<open>What unit \<open>k\<close> sees of the outcome of a call: its entry of the returned tensor, or the error.\<close>

fun unit_out :: "nat \<Rightarrow> py_error + val \<Rightarrow> py_error + val" where
  "unit_out k (Inl e) = Inl e"
| "unit_out k (Inr v) = Inr (unit_of k v)"

text \<open>
  The instance that unit \<open>k\<close> alone sees: the same parameters, and of each attribute
  the entry of unit \<open>k\<close>.
\<close>

definition ExpDecayCurrent_unit :: "nat \<Rightarrow> ExpDecayCurrent \<Rightarrow> ExpDecayCurrent" where
  "ExpDecayCurrent_unit k self = self\<lparr>edc_i := unit_of k (edc_i self)\<rparr>"

definition STPTransformer_unit :: "nat \<Rightarrow> STPTransformer \<Rightarrow> STPTransformer" where
  "STPTransformer_unit k self =
     self\<lparr>stp_x := unit_of k (stp_x self), stp_u := unit_of k (stp_u self)\<rparr>"

text \<open>
  \<open>initial_or_tensor c v\<close>: the value is a tensor, or it is the Python number \<open>c\<close>.
\<close>

fun initial_or_tensor :: "real \<Rightarrow> val \<Rightarrow> bool" where
  "initial_or_tensor c (Scalar a) = (a = c)"
| "initial_or_tensor c (Tensor xs) = True"

text \<open>
  The update rules as the specification writes them, for one unit with spike indicator
  \<open>s\<close> (0 or 1). They follow the specification's text, not the source, and are what the
  embedding of the source is compared with.
\<close>

definition spec_i_next :: "real \<Rightarrow> real \<Rightarrow> real \<Rightarrow> real \<Rightarrow> real" where
  "spec_i_next tau amplitude i s = i + (- i / tau) * (1 - s) + amplitude * s"

definition spec_x_next :: "real \<Rightarrow> real \<Rightarrow> real \<Rightarrow> real \<Rightarrow> real" where
  "spec_x_next tau_d x u s = x + (1 - x) / tau_d - x * s * u"

definition spec_u_next :: "real \<Rightarrow> real \<Rightarrow> real \<Rightarrow> real \<Rightarrow> real" where
  "spec_u_next u_base tau_f u s = u + (u_base - u) / tau_f + u_base * (1 - u) * s"

definition spec_output :: "real \<Rightarrow> real \<Rightarrow> real \<Rightarrow> real" where
  "spec_output u_next x_next s = u_next * x_next * s"

section \<open>Properties\<close>

subsection \<open>One step on a state that fits the sample\<close>

text \<open>
  When no time constant is zero and every attribute is a Python number or a tensor with
  one entry for each unit of the sample, a step raises nothing and every unit follows
  the update rule.
\<close>

lemmas py_ops = py_then_def tensor_float_def py_add_def py_sub_def py_mul_def

lemma new_i_fits:
  assumes "edc_tau self \<noteq> 0" and "fits (length in_spike) (edc_i self)"
  shows "ExpDecayCurrent_new_i self (tensor_float in_spike) =
    Inr (Tensor (map (\<lambda>k. spec_i_next (edc_tau self) (edc_amplitude self)
                   (units (length in_spike) (edc_i self) ! k) (of_bool (in_spike ! k)))
           [0..<length in_spike]))"
  using assms
  by (cases "edc_i self")
     (auto simp: ExpDecayCurrent_new_i_def py_ops spec_i_next_def intro!: nth_equalityI)

lemma new_x_fits:
  assumes "stp_tau_d self \<noteq> 0" and "fits (length in_spike) (stp_x self)"
    and "fits (length in_spike) (stp_u self)"
  shows "STPTransformer_new_x self (tensor_float in_spike) =
    Inr (Tensor (map (\<lambda>k. spec_x_next (stp_tau_d self)
                   (units (length in_spike) (stp_x self) ! k)
                   (units (length in_spike) (stp_u self) ! k) (of_bool (in_spike ! k)))
           [0..<length in_spike]))"
  using assms
  by (cases "stp_x self"; cases "stp_u self")
     (auto simp: STPTransformer_new_x_def py_ops spec_x_next_def intro!: nth_equalityI)

lemma new_u_fits:
  assumes "stp_tau_f self \<noteq> 0" and "fits (length in_spike) (stp_u self)"
  shows "STPTransformer_new_u self (tensor_float in_spike) =
    Inr (Tensor (map (\<lambda>k. spec_u_next (stp_u_base self) (stp_tau_f self)
                   (units (length in_spike) (stp_u self) ! k) (of_bool (in_spike ! k)))
           [0..<length in_spike]))"
  using assms
  by (cases "stp_u self")
     (auto simp: STPTransformer_new_u_def py_ops spec_u_next_def intro!: nth_equalityI)

lemma output_tensors:
  assumes "stp_u self = Tensor us" and "stp_x self = Tensor xs"
    and "length us = length in_spike" and "length xs = length in_spike"
  shows "STPTransformer_output self (tensor_float in_spike) =
    Inr (Tensor (map (\<lambda>k. spec_output (us ! k) (xs ! k) (of_bool (in_spike ! k)))
           [0..<length in_spike]))"
  using assms
  by (auto simp: STPTransformer_output_def py_ops spec_output_def intro!: nth_equalityI)

lemma edc_forward_fits:
  assumes "edc_tau self \<noteq> 0" and "fits (length in_spike) (edc_i self)"
  shows "ExpDecayCurrent_forward self in_spike =
     (Inr (Tensor (map (\<lambda>k. spec_i_next (edc_tau self) (edc_amplitude self)
                   (units (length in_spike) (edc_i self) ! k) (of_bool (in_spike ! k)))
           [0..<length in_spike])),
      self\<lparr>edc_i := Tensor (map (\<lambda>k. spec_i_next (edc_tau self) (edc_amplitude self)
                   (units (length in_spike) (edc_i self) ! k) (of_bool (in_spike ! k)))
           [0..<length in_spike])\<rparr>)"
  by (simp add: ExpDecayCurrent_forward_def new_i_fits[OF assms])

lemma stp_forward_fits:
  assumes "stp_tau_d self \<noteq> 0" and "stp_tau_f self \<noteq> 0"
    and "fits (length in_spike) (stp_x self)" and "fits (length in_spike) (stp_u self)"
  shows "STPTransformer_forward self in_spike =
     (Inr (Tensor (map (\<lambda>k. spec_output
              (spec_u_next (stp_u_base self) (stp_tau_f self)
                 (units (length in_spike) (stp_u self) ! k) (of_bool (in_spike ! k)))
              (spec_x_next (stp_tau_d self) (units (length in_spike) (stp_x self) ! k)
                 (units (length in_spike) (stp_u self) ! k) (of_bool (in_spike ! k)))
              (of_bool (in_spike ! k))) [0..<length in_spike])),
      self\<lparr>stp_x := Tensor (map (\<lambda>k. spec_x_next (stp_tau_d self)
                   (units (length in_spike) (stp_x self) ! k)
                   (units (length in_spike) (stp_u self) ! k) (of_bool (in_spike ! k)))
                 [0..<length in_spike]),
           stp_u := Tensor (map (\<lambda>k. spec_u_next (stp_u_base self) (stp_tau_f self)
                   (units (length in_spike) (stp_u self) ! k) (of_bool (in_spike ! k)))
                 [0..<length in_spike])\<rparr>)"
proof -
  let ?n = "length in_spike"
  let ?xn = "map (\<lambda>k. spec_x_next (stp_tau_d self) (units ?n (stp_x self) ! k)
                   (units ?n (stp_u self) ! k) (of_bool (in_spike ! k))) [0..<?n]"
  let ?self1 = "self\<lparr>stp_x := Tensor ?xn\<rparr>"
  let ?un = "map (\<lambda>k. spec_u_next (stp_u_base self) (stp_tau_f self)
                   (units ?n (stp_u self) ! k) (of_bool (in_spike ! k))) [0..<?n]"
  let ?self2 = "?self1\<lparr>stp_u := Tensor ?un\<rparr>"
  have x: "STPTransformer_new_x self (tensor_float in_spike) = Inr (Tensor ?xn)"
    using assms by (intro new_x_fits) auto
  have u: "STPTransformer_new_u ?self1 (tensor_float in_spike) = Inr (Tensor ?un)"
    using assms new_u_fits[of ?self1 in_spike] by simp
  have out: "STPTransformer_output ?self2 (tensor_float in_spike) =
    Inr (Tensor (map (\<lambda>k. spec_output (?un ! k) (?xn ! k) (of_bool (in_spike ! k))) [0..<?n]))"
    by (rule output_tensors) auto
  show ?thesis
    by (simp add: STPTransformer_forward_def x u out cong: map_cong)
qed


subsection \<open>ExpDecayCurrent: the update and the returned value\<close>

text \<open>
  C1. For an \<open>ExpDecayCurrent\<close> with a nonzero \<open>tau\<close>, every state \<open>i\<close> (the Python
  number of a fresh instance, or a tensor with one entry for each unit) and every spike
  sample, one call of \<open>forward\<close> computes \<open>i + (- i / tau) * (1 - s) + amplitude * s\<close>
  for each unit, stores it as the new state and returns that same value.
\<close>

theorem ExpDecayCurrent_forward_stores_and_returns:
  assumes "edc_tau self \<noteq> 0" and "fits (length in_spike) (edc_i self)"
  shows "let i_next = Tensor (map (\<lambda>k. spec_i_next (edc_tau self) (edc_amplitude self)
                   (units (length in_spike) (edc_i self) ! k) (of_bool (in_spike ! k)))
           [0..<length in_spike])
         in ExpDecayCurrent_forward self in_spike = (Inr i_next, self\<lparr>edc_i := i_next\<rparr>)"
  by (simp add: ExpDecayCurrent_forward_def new_i_fits[OF assms])

theorem ExpDecayCurrent_forward_stores_and_returns_witness:
  "edc_tau \<lparr>edc_tau = 10, edc_amplitude = 1, edc_i = Tensor [1, 1 / 2]\<rparr> \<noteq> 0
   \<and> fits (length [True, False]) (edc_i \<lparr>edc_tau = 10, edc_amplitude = 1, edc_i = Tensor [1, 1 / 2]\<rparr>)
   \<and> ExpDecayCurrent_forward \<lparr>edc_tau = 10, edc_amplitude = 1, edc_i = Tensor [1, 1 / 2]\<rparr> [True, False]
       = (Inr (Tensor [2, 9 / 20]), \<lparr>edc_tau = 10, edc_amplitude = 1, edc_i = Tensor [2, 9 / 20]\<rparr>)"
  using ExpDecayCurrent_forward_stores_and_returns
    [of "\<lparr>edc_tau = 10, edc_amplitude = 1, edc_i = Tensor [1, 1 / 2]\<rparr>" "[True, False]"]
  by (simp add: Let_def spec_i_next_def)

subsection \<open>STPTransformer: the order of the updates\<close>

text \<open>
  C2. For an \<open>STPTransformer\<close> with nonzero time constants, one call of \<open>forward\<close>
  computes, for each unit, \<open>x_next = x + (1 - x) / tau_d - x * s * u\<close> from the
  \<open>u\<close> of before the call, then \<open>u_next = u + (u_base - u) / tau_f + u_base * (1 - u) * s\<close>,
  stores both, and returns \<open>u_next * x_next * s\<close>, which is zero for every unit without
  a spike.
\<close>

theorem STPTransformer_forward_order:
  assumes "stp_tau_d self \<noteq> 0" and "stp_tau_f self \<noteq> 0"
    and "fits (length in_spike) (stp_x self)" and "fits (length in_spike) (stp_u self)"
  shows "let n = length in_spike;
             x = units n (stp_x self); u = units n (stp_u self); s = map of_bool in_spike;
             x_next = map (\<lambda>k. spec_x_next (stp_tau_d self) (x ! k) (u ! k) (s ! k)) [0..<n];
             u_next = map (\<lambda>k. spec_u_next (stp_u_base self) (stp_tau_f self) (u ! k) (s ! k)) [0..<n];
             output = map (\<lambda>k. spec_output (u_next ! k) (x_next ! k) (s ! k)) [0..<n]
         in STPTransformer_forward self in_spike =
              (Inr (Tensor output), self\<lparr>stp_x := Tensor x_next, stp_u := Tensor u_next\<rparr>)
            \<and> (\<forall>k<n. \<not> in_spike ! k \<longrightarrow> output ! k = 0)"
proof -
  let ?n = "length in_spike"
  let ?xn = "map (\<lambda>k. spec_x_next (stp_tau_d self) (units ?n (stp_x self) ! k)
                   (units ?n (stp_u self) ! k) (of_bool (in_spike ! k))) [0..<?n]"
  let ?self1 = "self\<lparr>stp_x := Tensor ?xn\<rparr>"
  let ?un = "map (\<lambda>k. spec_u_next (stp_u_base self) (stp_tau_f self)
                   (units ?n (stp_u self) ! k) (of_bool (in_spike ! k))) [0..<?n]"
  let ?self2 = "?self1\<lparr>stp_u := Tensor ?un\<rparr>"
  have x: "STPTransformer_new_x self (tensor_float in_spike) = Inr (Tensor ?xn)"
    using assms by (intro new_x_fits) auto
  have u: "STPTransformer_new_u ?self1 (tensor_float in_spike) = Inr (Tensor ?un)"
    using assms new_u_fits[of ?self1 in_spike] by simp
  have out: "STPTransformer_output ?self2 (tensor_float in_spike) =
    Inr (Tensor (map (\<lambda>k. spec_output (?un ! k) (?xn ! k) (of_bool (in_spike ! k))) [0..<?n]))"
    by (rule output_tensors) auto
  have fwd: "STPTransformer_forward self in_spike =
     (Inr (Tensor (map (\<lambda>k. spec_output (?un ! k) (?xn ! k) (of_bool (in_spike ! k))) [0..<?n])), ?self2)"
    by (simp add: STPTransformer_forward_def x u out)
  show ?thesis
    unfolding Let_def using fwd by (simp add: spec_output_def cong: map_cong)
qed


theorem STPTransformer_forward_order_witness:
  "stp_tau_d \<lparr>stp_u_base = 1 / 2, stp_tau_f = 50, stp_tau_d = 100, stp_x = Scalar 1, stp_u = Scalar (1 / 2)\<rparr> \<noteq> 0
   \<and> stp_tau_f \<lparr>stp_u_base = 1 / 2, stp_tau_f = 50, stp_tau_d = 100, stp_x = Scalar 1, stp_u = Scalar (1 / 2)\<rparr> \<noteq> 0
   \<and> fits (length [True, False]) (Scalar 1) \<and> fits (length [True, False]) (Scalar (1 / 2))
   \<and> STPTransformer_forward
        \<lparr>stp_u_base = 1 / 2, stp_tau_f = 50, stp_tau_d = 100, stp_x = Scalar 1, stp_u = Scalar (1 / 2)\<rparr>
        [True, False]
      = (Inr (Tensor [3 / 8, 0]),
         \<lparr>stp_u_base = 1 / 2, stp_tau_f = 50, stp_tau_d = 100,
          stp_x = Tensor [1 / 2, 1], stp_u = Tensor [3 / 4, 1 / 2]\<rparr>)"
  using STPTransformer_forward_order
    [of "\<lparr>stp_u_base = 1 / 2, stp_tau_f = 50, stp_tau_d = 100, stp_x = Scalar 1, stp_u = Scalar (1 / 2)\<rparr>"
        "[True, False]"]
  by (simp add: Let_def spec_x_next_def spec_u_next_def spec_output_def)


subsection \<open>ExpDecayCurrent: a spike on a state that is not zero\<close>

text \<open>
  C3. The docstring of the class says that the current becomes \<open>amplitude\<close> when a
  spike arrives. The code adds \<open>amplitude\<close> to the state instead: with \<open>tau = 10\<close>,
  \<open>amplitude = 1\<close> and the state 1 that a first spike leaves, a second spike returns 2.
\<close>

theorem ExpDecayCurrent_spike_adds_amplitude:
  "ExpDecayCurrent_init 10 1 = Inr \<lparr>edc_tau = 10, edc_amplitude = 1, edc_i = Scalar 0\<rparr>
   \<and> fst (steps ExpDecayCurrent_forward \<lparr>edc_tau = 10, edc_amplitude = 1, edc_i = Scalar 0\<rparr>
             [[True], [True]])
       = [Inr (Tensor [1]), Inr (Tensor [2])]
   \<and> ExpDecayCurrent_forward \<lparr>edc_tau = 10, edc_amplitude = 1, edc_i = Tensor [1]\<rparr> [True]
       = (Inr (Tensor [2]), \<lparr>edc_tau = 10, edc_amplitude = 1, edc_i = Tensor [2]\<rparr>)"
  by (simp add: ExpDecayCurrent_init_def edc_forward_fits spec_i_next_def)

subsection \<open>Lemmas on calls that raise, on the kind of a stored value and on one unit of a batch\<close>

lemma new_i_tau_zero:
  "edc_tau self = 0 \<Longrightarrow> ExpDecayCurrent_new_i self v =
     Inl (case edc_i self of Scalar a \<Rightarrow> ZeroDivisionError | Tensor xs \<Rightarrow> NonFinite)"
  by (cases "edc_i self") (simp_all add: ExpDecayCurrent_new_i_def py_ops)

lemma new_x_tau_zero:
  "stp_tau_d self = 0 \<Longrightarrow> STPTransformer_new_x self v =
     Inl (case stp_x self of Scalar a \<Rightarrow> ZeroDivisionError | Tensor xs \<Rightarrow> NonFinite)"
  by (cases "stp_x self") (simp_all add: STPTransformer_new_x_def py_ops)

lemma new_u_tau_zero:
  "stp_tau_f self = 0 \<Longrightarrow> STPTransformer_new_u self v =
     Inl (case stp_u self of Scalar a \<Rightarrow> ZeroDivisionError | Tensor xs \<Rightarrow> NonFinite)"
  by (cases "stp_u self") (simp_all add: STPTransformer_new_u_def py_ops)

lemma broadcast_tensor_right: "broadcast f a (Tensor ys) = Inr v \<Longrightarrow> \<exists>zs. v = Tensor zs"
  by (cases a) (auto split: if_splits)

lemma broadcast_tensor_left: "broadcast f (Tensor xs) b = Inr v \<Longrightarrow> \<exists>zs. v = Tensor zs"
  by (cases b) (auto split: if_splits)

lemma py_iadd_tensor_right: "py_iadd a (Tensor ys) = Inr v \<Longrightarrow> \<exists>zs. v = Tensor zs"
  by (cases a) (auto simp: py_add_def split: if_splits)

lemma new_x_tensor:
  assumes "STPTransformer_new_x self (tensor_float in_spike) = Inr v"
  shows "initial_or_tensor c v"
proof -
  from assms obtain x_decay spiked used delta where
    s: "py_mul (stp_x self) (tensor_float in_spike) = Inr spiked"
    and u: "py_mul spiked (stp_u self) = Inr used"
    and d: "py_sub x_decay used = Inr delta"
    and v: "py_iadd (stp_x self) delta = Inr v"
    by (auto simp: STPTransformer_new_x_def py_then_def split: sum.splits)
  from s obtain ss where "spiked = Tensor ss"
    unfolding py_mul_def tensor_float_def by (blast dest: broadcast_tensor_right)
  with u obtain us where "used = Tensor us"
    unfolding py_mul_def by (blast dest: broadcast_tensor_left)
  with d obtain ds where "delta = Tensor ds"
    unfolding py_sub_def by (blast dest: broadcast_tensor_right)
  with v obtain zs where "v = Tensor zs"
    by (blast dest: py_iadd_tensor_right)
  then show ?thesis by simp
qed

lemma new_u_tensor:
  assumes "STPTransformer_new_u self (tensor_float in_spike) = Inr v"
  shows "initial_or_tensor c v"
proof -
  from assms obtain u_decay gain jump delta where
    j: "py_mul gain (tensor_float in_spike) = Inr jump"
    and d: "py_add u_decay jump = Inr delta"
    and v: "py_iadd (stp_u self) delta = Inr v"
    by (auto simp: STPTransformer_new_u_def py_then_def split: sum.splits)
  from j obtain js where "jump = Tensor js"
    unfolding py_mul_def tensor_float_def by (blast dest: broadcast_tensor_right)
  with d obtain ds where "delta = Tensor ds"
    unfolding py_add_def by (blast dest: broadcast_tensor_right)
  with v obtain zs where "v = Tensor zs"
    by (blast dest: py_iadd_tensor_right)
  then show ?thesis by simp
qed

lemma fill_fill: "fill (fill v c) c = fill v c"
  by (cases v) simp_all

lemma entries_fill: "initial_or_tensor c v \<Longrightarrow> a \<in> set (entries (fill v c)) \<Longrightarrow> a = c"
  by (cases v) auto

lemma initial_or_tensor_fill: "initial_or_tensor c v \<Longrightarrow> initial_or_tensor c (fill v d)"
  by (cases v) simp_all

lemma edc_forward_keeps:
  "edc_tau (snd (ExpDecayCurrent_forward self in_spike)) = edc_tau self"
  "edc_amplitude (snd (ExpDecayCurrent_forward self in_spike)) = edc_amplitude self"
  by (simp_all add: ExpDecayCurrent_forward_def Let_def split: sum.splits)

lemma stp_forward_keeps:
  "stp_u_base (snd (STPTransformer_forward self in_spike)) = stp_u_base self"
  "stp_tau_f (snd (STPTransformer_forward self in_spike)) = stp_tau_f self"
  "stp_tau_d (snd (STPTransformer_forward self in_spike)) = stp_tau_d self"
  by (simp_all add: STPTransformer_forward_def Let_def split: sum.splits)

lemma stp_forward_x:
  "initial_or_tensor c (stp_x self) \<Longrightarrow>
   initial_or_tensor c (stp_x (snd (STPTransformer_forward self in_spike)))"
  by (auto simp: STPTransformer_forward_def Let_def new_x_tensor split: sum.splits)

lemma stp_forward_u:
  "initial_or_tensor c (stp_u self) \<Longrightarrow>
   initial_or_tensor c (stp_u (snd (STPTransformer_forward self in_spike)))"
  by (auto simp: STPTransformer_forward_def Let_def new_u_tensor split: sum.splits)

lemma edc_after_calls:
  "edc_tau (after_calls ExpDecayCurrent_forward ExpDecayCurrent_reset self calls) = edc_tau self
   \<and> edc_amplitude (after_calls ExpDecayCurrent_forward ExpDecayCurrent_reset self calls)
       = edc_amplitude self"
proof (induction calls arbitrary: self)
  case Nil
  then show ?case by (simp add: after_calls_def)
next
  case (Cons c calls)
  let ?next = "after_call ExpDecayCurrent_forward ExpDecayCurrent_reset self c"
  have keep: "edc_tau ?next = edc_tau self" "edc_amplitude ?next = edc_amplitude self"
    by (cases c; simp add: edc_forward_keeps ExpDecayCurrent_reset_def)+
  from Cons.IH[of ?next] keep show ?case
    by (simp add: after_calls_def)
qed

lemma stp_after_calls:
  assumes "initial_or_tensor 1 (stp_x self)" and "initial_or_tensor (stp_u_base self) (stp_u self)"
  shows "initial_or_tensor 1 (stp_x (after_calls STPTransformer_forward STPTransformer_reset self calls))
       \<and> initial_or_tensor (stp_u_base self)
            (stp_u (after_calls STPTransformer_forward STPTransformer_reset self calls))
       \<and> stp_u_base (after_calls STPTransformer_forward STPTransformer_reset self calls) = stp_u_base self
       \<and> stp_tau_f (after_calls STPTransformer_forward STPTransformer_reset self calls) = stp_tau_f self
       \<and> stp_tau_d (after_calls STPTransformer_forward STPTransformer_reset self calls) = stp_tau_d self"
  using assms
proof (induction calls arbitrary: self)
  case Nil
  then show ?case by (simp add: after_calls_def)
next
  case (Cons c calls)
  let ?next = "after_call STPTransformer_forward STPTransformer_reset self c"
  have keep: "stp_u_base ?next = stp_u_base self" "stp_tau_f ?next = stp_tau_f self"
    "stp_tau_d ?next = stp_tau_d self"
    by (cases c; simp add: stp_forward_keeps STPTransformer_reset_def)+
  have x: "initial_or_tensor 1 (stp_x ?next)"
    using Cons.prems(1)
    by (cases c) (simp_all add: stp_forward_x STPTransformer_reset_def initial_or_tensor_fill)
  have u: "initial_or_tensor (stp_u_base ?next) (stp_u ?next)"
    using Cons.prems(2) keep(1)
    by (cases c) (simp_all add: stp_forward_u STPTransformer_reset_def initial_or_tensor_fill)
  from Cons.IH[OF x u] keep show ?case
    by (simp add: after_calls_def)
qed

lemma sc_after_calls: "after_calls SpikeCurrent_forward SpikeCurrent_reset self calls = self"
proof (induction calls)
  case Nil
  then show ?case by (simp add: after_calls_def)
next
  case (Cons c calls)
  have "after_call SpikeCurrent_forward SpikeCurrent_reset self c = self"
    by (cases c) (simp_all add: SpikeCurrent_forward_def SpikeCurrent_reset_def BaseTransformer_reset_def)
  with Cons show ?case
    by (simp add: after_calls_def)
qed

lemma units_unit_of: "fits n v \<Longrightarrow> k < n \<Longrightarrow> units (Suc 0) (unit_of k v) ! 0 = units n v ! k"
  by (cases v) auto

lemma fits_unit_of: "fits (Suc 0) (unit_of k v)"
  by (cases v) auto

lemma unit_of_kind:
  "(case unit_of k v of Scalar a \<Rightarrow> (e1::py_error) | Tensor xs \<Rightarrow> e2) =
   (case v of Scalar a \<Rightarrow> e1 | Tensor xs \<Rightarrow> e2)"
  by (cases v) simp_all

lemma edc_unit_simps:
  "edc_tau (ExpDecayCurrent_unit k self) = edc_tau self"
  "edc_amplitude (ExpDecayCurrent_unit k self) = edc_amplitude self"
  "edc_i (ExpDecayCurrent_unit k self) = unit_of k (edc_i self)"
  "ExpDecayCurrent_unit k (self\<lparr>edc_i := v\<rparr>) = self\<lparr>edc_i := unit_of k v\<rparr>"
  "(ExpDecayCurrent_unit k self)\<lparr>edc_i := v\<rparr> = self\<lparr>edc_i := v\<rparr>"
  by (simp_all add: ExpDecayCurrent_unit_def)

lemma stp_unit_simps:
  "stp_u_base (STPTransformer_unit k self) = stp_u_base self"
  "stp_tau_f (STPTransformer_unit k self) = stp_tau_f self"
  "stp_tau_d (STPTransformer_unit k self) = stp_tau_d self"
  "stp_x (STPTransformer_unit k self) = unit_of k (stp_x self)"
  "stp_u (STPTransformer_unit k self) = unit_of k (stp_u self)"
  "STPTransformer_unit k (self\<lparr>stp_x := v\<rparr>) = (STPTransformer_unit k self)\<lparr>stp_x := unit_of k v\<rparr>"
  "STPTransformer_unit k (self\<lparr>stp_u := w\<rparr>) = (STPTransformer_unit k self)\<lparr>stp_u := unit_of k w\<rparr>"
  by (simp_all add: STPTransformer_unit_def)

lemma sc_forward_unit:
  assumes "k < length in_spike"
  shows "SpikeCurrent_forward self [in_spike ! k] =
     (unit_out k (fst (SpikeCurrent_forward self in_spike)), snd (SpikeCurrent_forward self in_spike))"
  using assms by (simp add: SpikeCurrent_forward_def py_ops)

lemma edc_forward_unit:
  assumes "fits n (edc_i self)" and "length in_spike = n" and "k < n"
  shows "ExpDecayCurrent_forward (ExpDecayCurrent_unit k self) [in_spike ! k] =
     (unit_out k (fst (ExpDecayCurrent_forward self in_spike)),
      ExpDecayCurrent_unit k (snd (ExpDecayCurrent_forward self in_spike)))"
    and "fits n (edc_i (snd (ExpDecayCurrent_forward self in_spike)))"
proof -
  have both: "ExpDecayCurrent_forward (ExpDecayCurrent_unit k self) [in_spike ! k] =
     (unit_out k (fst (ExpDecayCurrent_forward self in_spike)),
      ExpDecayCurrent_unit k (snd (ExpDecayCurrent_forward self in_spike)))
     \<and> fits n (edc_i (snd (ExpDecayCurrent_forward self in_spike)))"
  proof (cases "edc_tau self = 0")
    case True
    then show ?thesis
      using assms
      by (cases "edc_i self")
         (simp_all add: ExpDecayCurrent_forward_def new_i_tau_zero edc_unit_simps)
  next
    case False
    have a: "edc_tau (ExpDecayCurrent_unit k self) \<noteq> 0"
      and b: "fits (length [in_spike ! k]) (edc_i (ExpDecayCurrent_unit k self))"
      and c: "fits (length in_spike) (edc_i self)"
      using False assms by (simp_all add: edc_unit_simps fits_unit_of)
    show ?thesis
      using assms
      by (simp add: edc_forward_fits[OF a b] edc_forward_fits[OF False c]
            edc_unit_simps units_unit_of)
  qed
  from both show "ExpDecayCurrent_forward (ExpDecayCurrent_unit k self) [in_spike ! k] =
     (unit_out k (fst (ExpDecayCurrent_forward self in_spike)),
      ExpDecayCurrent_unit k (snd (ExpDecayCurrent_forward self in_spike)))" by simp
  from both show "fits n (edc_i (snd (ExpDecayCurrent_forward self in_spike)))" by simp
qed

lemma stp_forward_unit:
  assumes "fits n (stp_x self)" and "fits n (stp_u self)" and "length in_spike = n" and "k < n"
  shows "STPTransformer_forward (STPTransformer_unit k self) [in_spike ! k] =
     (unit_out k (fst (STPTransformer_forward self in_spike)),
      STPTransformer_unit k (snd (STPTransformer_forward self in_spike)))
     \<and> fits n (stp_x (snd (STPTransformer_forward self in_spike)))
     \<and> fits n (stp_u (snd (STPTransformer_forward self in_spike)))"
proof -
  let ?unit = "STPTransformer_unit k self"
  have fx: "fits (length [in_spike ! k]) (stp_x ?unit)"
    and fu: "fits (length [in_spike ! k]) (stp_u ?unit)"
    and gx: "fits (length in_spike) (stp_x self)"
    and gu: "fits (length in_spike) (stp_u self)"
    using assms by (simp_all add: stp_unit_simps fits_unit_of)
  consider (d) "stp_tau_d self = 0" | (f) "stp_tau_d self \<noteq> 0" "stp_tau_f self = 0"
    | (ok) "stp_tau_d self \<noteq> 0" "stp_tau_f self \<noteq> 0"
    by blast
  then show ?thesis
  proof cases
    case d
    then show ?thesis
      using assms
      by (simp add: STPTransformer_forward_def new_x_tau_zero stp_unit_simps unit_of_kind)
  next
    case f
    have d': "stp_tau_d ?unit \<noteq> 0" using f by (simp add: stp_unit_simps)
    show ?thesis
      using assms f
      by (simp add: STPTransformer_forward_def new_x_fits[OF d' fx fu] new_x_fits[OF f(1) gx gu]
            new_u_tau_zero stp_unit_simps unit_of_kind units_unit_of)
  next
    case ok
    have d': "stp_tau_d ?unit \<noteq> 0" and f': "stp_tau_f ?unit \<noteq> 0"
      using ok by (simp_all add: stp_unit_simps)
    show ?thesis
      using assms
      by (simp add: stp_forward_fits[OF d' f' fx fu] stp_forward_fits[OF ok gx gu]
            stp_unit_simps units_unit_of)
  qed
qed

lemma sc_steps_unit:
  assumes "\<forall>in_spike \<in> set trains. length in_spike = n" and "k < n"
  shows "fst (steps SpikeCurrent_forward self (map (\<lambda>in_spike. [in_spike ! k]) trains))
         = map (unit_out k) (fst (steps SpikeCurrent_forward self trains))"
  using assms
proof (induction trains arbitrary: self)
  case Nil
  then show ?case by simp
next
  case (Cons s trains)
  have len: "k < length s" using Cons.prems by simp
  have ih: "fst (steps SpikeCurrent_forward (snd (SpikeCurrent_forward self s))
                  (map (\<lambda>in_spike. [in_spike ! k]) trains))
         = map (unit_out k)
             (fst (steps SpikeCurrent_forward (snd (SpikeCurrent_forward self s)) trains))"
    using Cons.prems by (intro Cons.IH) auto
  show ?case
    by (simp add: sc_forward_unit[OF len] ih split_beta)
qed

lemma edc_steps_unit:
  assumes "\<forall>in_spike \<in> set trains. length in_spike = n" and "k < n" and "fits n (edc_i self)"
  shows "fst (steps ExpDecayCurrent_forward (ExpDecayCurrent_unit k self)
               (map (\<lambda>in_spike. [in_spike ! k]) trains))
         = map (unit_out k) (fst (steps ExpDecayCurrent_forward self trains))"
  using assms
proof (induction trains arbitrary: self)
  case Nil
  then show ?case by simp
next
  case (Cons s trains)
  have len: "length s = n" using Cons.prems by simp
  note st = edc_forward_unit[OF Cons.prems(3) len Cons.prems(2)]
  have ih: "fst (steps ExpDecayCurrent_forward
                  (ExpDecayCurrent_unit k (snd (ExpDecayCurrent_forward self s)))
                  (map (\<lambda>in_spike. [in_spike ! k]) trains))
         = map (unit_out k)
             (fst (steps ExpDecayCurrent_forward (snd (ExpDecayCurrent_forward self s)) trains))"
    using Cons.prems by (intro Cons.IH st(2)) auto
  show ?case
    by (simp add: st(1) ih split_beta)
qed

lemma stp_steps_unit:
  assumes "\<forall>in_spike \<in> set trains. length in_spike = n" and "k < n"
    and "fits n (stp_x self)" and "fits n (stp_u self)"
  shows "fst (steps STPTransformer_forward (STPTransformer_unit k self)
               (map (\<lambda>in_spike. [in_spike ! k]) trains))
         = map (unit_out k) (fst (steps STPTransformer_forward self trains))"
  using assms
proof (induction trains arbitrary: self)
  case Nil
  then show ?case by simp
next
  case (Cons s trains)
  have len: "length s = n" using Cons.prems by simp
  note st = stp_forward_unit[OF Cons.prems(3) Cons.prems(4) len Cons.prems(2)]
  have ih: "fst (steps STPTransformer_forward
                  (STPTransformer_unit k (snd (STPTransformer_forward self s)))
                  (map (\<lambda>in_spike. [in_spike ! k]) trains))
         = map (unit_out k)
             (fst (steps STPTransformer_forward (snd (STPTransformer_forward self s)) trains))"
    using Cons.prems st by (intro Cons.IH) auto
  show ?case
    using st by (simp add: ih split_beta)
qed

subsection \<open>Calls on constructed instances stay inside the embedding\<close>

text \<open>
  The errors \<open>forward\<close> can raise, and the state it leaves. On an instance reached from
  a constructor by calls of \<open>forward\<close> and \<open>reset\<close>, an attribute divided by a zero
  time constant is still the Python number of construction, so the division raises
  \<open>ZeroDivisionError\<close>: the outcome \<open>NonFinite\<close> does not occur.
\<close>

lemma broadcast_raises: "broadcast f a b = Inl e \<Longrightarrow> e = RuntimeError"
  by (cases a; cases b) (auto split: if_splits)

lemma py_iadd_raises: "py_iadd a b = Inl e \<Longrightarrow> e = RuntimeError"
  by (cases a; cases b) (auto simp: py_add_def split: if_splits)

lemma py_truediv_raises:
  "py_truediv a t = Inl e \<Longrightarrow> t = 0 \<and> e = (case a of Scalar c \<Rightarrow> ZeroDivisionError | Tensor xs \<Rightarrow> NonFinite)"
  by (cases a) (auto split: if_splits)

lemma new_i_raises:
  assumes "ExpDecayCurrent_new_i self v = Inl e"
  shows "e = RuntimeError \<or> (edc_tau self = 0 \<and>
           e = (case edc_i self of Scalar c \<Rightarrow> ZeroDivisionError | Tensor xs \<Rightarrow> NonFinite))"
proof (cases "edc_tau self = 0")
  case True
  with assms show ?thesis by (simp add: new_i_tau_zero)
next
  case False
  then obtain d where d: "py_truediv (py_neg (edc_i self)) (edc_tau self) = Inr d"
    by (cases "edc_i self") simp_all
  with assms have "e = RuntimeError"
    by (auto simp: ExpDecayCurrent_new_i_def py_ops split: sum.splits
          dest: broadcast_raises py_iadd_raises)
  then show ?thesis by simp
qed


lemma edc_forward_raises:
  assumes "fst (ExpDecayCurrent_forward self in_spike) = Inl e"
  shows "snd (ExpDecayCurrent_forward self in_spike) = self"
    and "e = RuntimeError \<or> (edc_tau self = 0 \<and>
           e = (case edc_i self of Scalar c \<Rightarrow> ZeroDivisionError | Tensor xs \<Rightarrow> NonFinite))"
  using assms
  by (auto simp: ExpDecayCurrent_forward_def Let_def split: sum.splits dest: new_i_raises)

lemma edc_forward_tau_zero:
  "edc_tau self = 0 \<Longrightarrow> snd (ExpDecayCurrent_forward self in_spike) = self"
  by (simp add: ExpDecayCurrent_forward_def new_i_tau_zero)

lemma edc_scalar_while_tau_zero:
  assumes "edc_tau self = 0 \<longrightarrow> (\<exists>a. edc_i self = Scalar a)"
  shows "edc_tau (after_calls ExpDecayCurrent_forward ExpDecayCurrent_reset self calls) = 0 \<longrightarrow>
         (\<exists>a. edc_i (after_calls ExpDecayCurrent_forward ExpDecayCurrent_reset self calls) = Scalar a)"
  using assms
proof (induction calls arbitrary: self)
  case Nil
  then show ?case by (simp add: after_calls_def)
next
  case (Cons c calls)
  let ?next = "after_call ExpDecayCurrent_forward ExpDecayCurrent_reset self c"
  have "edc_tau ?next = 0 \<longrightarrow> (\<exists>a. edc_i ?next = Scalar a)"
  proof (cases c)
    case (Forward in_spike)
    with Cons.prems show ?thesis
      by (cases "edc_tau self = 0") (simp_all add: edc_forward_tau_zero edc_forward_keeps)
  next
    case Reset
    then show ?thesis by (simp add: ExpDecayCurrent_reset_def)
  qed
  from Cons.IH[OF this] show ?case
    by (simp add: after_calls_def)
qed

lemma edc_never_nonfinite:
  assumes "ExpDecayCurrent_init tau amplitude = Inr edc"
  shows "fst (ExpDecayCurrent_forward
               (after_calls ExpDecayCurrent_forward ExpDecayCurrent_reset edc calls) in_spike)
         \<noteq> Inl NonFinite"
proof
  let ?st = "after_calls ExpDecayCurrent_forward ExpDecayCurrent_reset edc calls"
  assume a: "fst (ExpDecayCurrent_forward ?st in_spike) = Inl NonFinite"
  from assms have "edc_tau edc = 0 \<longrightarrow> (\<exists>a. edc_i edc = Scalar a)"
    by (auto simp: ExpDecayCurrent_init_def)
  from edc_scalar_while_tau_zero[OF this, of calls] edc_forward_raises(2)[OF a]
  show False by auto
qed

lemma new_x_raises:
  assumes "STPTransformer_new_x self v = Inl e"
  shows "e = RuntimeError \<or> (stp_tau_d self = 0 \<and>
           e = (case stp_x self of Scalar c \<Rightarrow> ZeroDivisionError | Tensor xs \<Rightarrow> NonFinite))"
proof (cases "stp_tau_d self = 0")
  case True
  with assms show ?thesis by (simp add: new_x_tau_zero)
next
  case False
  with assms have "e = RuntimeError"
    by (auto simp: STPTransformer_new_x_def py_ops split: sum.splits
          dest: broadcast_raises py_iadd_raises py_truediv_raises)
  then show ?thesis by simp
qed

lemma new_u_raises:
  assumes "STPTransformer_new_u self v = Inl e"
  shows "e = RuntimeError \<or> (stp_tau_f self = 0 \<and>
           e = (case stp_u self of Scalar c \<Rightarrow> ZeroDivisionError | Tensor xs \<Rightarrow> NonFinite))"
proof (cases "stp_tau_f self = 0")
  case True
  with assms show ?thesis by (simp add: new_u_tau_zero)
next
  case False
  with assms have "e = RuntimeError"
    by (auto simp: STPTransformer_new_u_def py_ops split: sum.splits
          dest: broadcast_raises py_iadd_raises py_truediv_raises)
  then show ?thesis by simp
qed

lemma output_raises: "STPTransformer_output self v = Inl e \<Longrightarrow> e = RuntimeError"
  by (auto simp: STPTransformer_output_def py_ops split: sum.splits dest: broadcast_raises)

lemma stp_forward_raises:
  assumes "fst (STPTransformer_forward self in_spike) = Inl e"
  shows "e = RuntimeError
     \<or> (stp_tau_d self = 0 \<and>
           e = (case stp_x self of Scalar c \<Rightarrow> ZeroDivisionError | Tensor xs \<Rightarrow> NonFinite))
     \<or> (stp_tau_f self = 0 \<and>
           e = (case stp_u self of Scalar c \<Rightarrow> ZeroDivisionError | Tensor xs \<Rightarrow> NonFinite))"
  using assms
  by (auto simp: STPTransformer_forward_def Let_def split: sum.splits
        dest: new_x_raises new_u_raises output_raises)

lemma stp_forward_x_tau_zero:
  "stp_tau_d self = 0 \<Longrightarrow> snd (STPTransformer_forward self in_spike) = self"
  by (simp add: STPTransformer_forward_def new_x_tau_zero)

lemma stp_forward_u_tau_zero:
  "stp_tau_f self = 0 \<Longrightarrow> stp_u (snd (STPTransformer_forward self in_spike)) = stp_u self"
  by (simp add: STPTransformer_forward_def Let_def new_u_tau_zero split: sum.splits)

lemma fill_scalar: "\<exists>a. v = Scalar a \<Longrightarrow> \<exists>a. fill v c = Scalar a"
  by auto

lemma stp_scalar_while_tau_zero:
  assumes "stp_tau_d self = 0 \<longrightarrow> (\<exists>a. stp_x self = Scalar a)"
    and "stp_tau_f self = 0 \<longrightarrow> (\<exists>a. stp_u self = Scalar a)"
  shows "(stp_tau_d (after_calls STPTransformer_forward STPTransformer_reset self calls) = 0 \<longrightarrow>
           (\<exists>a. stp_x (after_calls STPTransformer_forward STPTransformer_reset self calls) = Scalar a))
       \<and> (stp_tau_f (after_calls STPTransformer_forward STPTransformer_reset self calls) = 0 \<longrightarrow>
           (\<exists>a. stp_u (after_calls STPTransformer_forward STPTransformer_reset self calls) = Scalar a))"
  using assms
proof (induction calls arbitrary: self)
  case Nil
  then show ?case by (simp add: after_calls_def)
next
  case (Cons c calls)
  let ?next = "after_call STPTransformer_forward STPTransformer_reset self c"
  have x: "stp_tau_d ?next = 0 \<longrightarrow> (\<exists>a. stp_x ?next = Scalar a)"
  proof (cases c)
    case (Forward in_spike)
    with Cons.prems(1) show ?thesis
      by (cases "stp_tau_d self = 0") (simp_all add: stp_forward_x_tau_zero stp_forward_keeps)
  next
    case Reset
    with Cons.prems(1) show ?thesis
      by (auto simp: STPTransformer_reset_def)
  qed
  have u: "stp_tau_f ?next = 0 \<longrightarrow> (\<exists>a. stp_u ?next = Scalar a)"
  proof (cases c)
    case (Forward in_spike)
    with Cons.prems(2) show ?thesis
      by (cases "stp_tau_f self = 0") (simp_all add: stp_forward_u_tau_zero stp_forward_keeps)
  next
    case Reset
    with Cons.prems(2) show ?thesis
      by (auto simp: STPTransformer_reset_def)
  qed
  from Cons.IH[OF x u] show ?case
    by (simp add: after_calls_def)
qed

lemma stp_never_nonfinite:
  assumes "STPTransformer_init u_base tau_f tau_d = Inr stp"
  shows "fst (STPTransformer_forward
               (after_calls STPTransformer_forward STPTransformer_reset stp calls) in_spike)
         \<noteq> Inl NonFinite"
proof
  let ?st = "after_calls STPTransformer_forward STPTransformer_reset stp calls"
  assume a: "fst (STPTransformer_forward ?st in_spike) = Inl NonFinite"
  from assms have "stp_tau_d stp = 0 \<longrightarrow> (\<exists>a. stp_x stp = Scalar a)"
    and "stp_tau_f stp = 0 \<longrightarrow> (\<exists>a. stp_u stp = Scalar a)"
    by (auto simp: STPTransformer_init_def)
  from stp_scalar_while_tau_zero[OF this, of calls] stp_forward_raises[OF a]
  show False by auto
qed

subsection \<open>ExpDecayCurrent between spikes\<close>

text \<open>
  Without spikes every step multiplies the state by \<open>1 - 1 / tau\<close>. In exact
  arithmetic the state shrinks towards 0 for \<open>tau > 1 / 2\<close> and grows without bound
  in absolute value for \<open>0 < tau < 1 / 2\<close>; whether the float32 tensor of the code
  stays finite is a question about rounding and overflow, outside this embedding.
\<close>

lemma edc_silent_steps:
  assumes "tau \<noteq> 0"
  shows "snd (steps ExpDecayCurrent_forward \<lparr>edc_tau = tau, edc_amplitude = amplitude, edc_i = Tensor [a]\<rparr>
               (replicate n [False]))
         = \<lparr>edc_tau = tau, edc_amplitude = amplitude, edc_i = Tensor [a * (1 - 1 / tau) ^ n]\<rparr>"
proof (induction n arbitrary: a)
  case 0
  then show ?case by simp
next
  case (Suc n)
  have "ExpDecayCurrent_forward \<lparr>edc_tau = tau, edc_amplitude = amplitude, edc_i = Tensor [a]\<rparr> [False]
     = (Inr (Tensor [a * (1 - 1 / tau)]),
        \<lparr>edc_tau = tau, edc_amplitude = amplitude, edc_i = Tensor [a * (1 - 1 / tau)]\<rparr>)"
    using assms by (simp add: edc_forward_fits spec_i_next_def field_simps)
  then show ?case
    by (simp add: Suc.IH split_beta mult.assoc)
qed

subsection \<open>Constructors\<close>

text \<open>
  C4, as the code has it. The constructors have no check: whatever the time constants
  are, zero and negative ones included, construction returns an instance that holds
  them. A zero \<open>tau\<close> (a zero \<open>tau_d\<close>) shows at the first call of \<open>forward\<close>, where
  Python's division of the initial number raises \<open>ZeroDivisionError\<close> and the instance
  stays as constructed.
\<close>

theorem constructors_store_unchecked:
  "ExpDecayCurrent_init tau amplitude
     = Inr \<lparr>edc_tau = tau, edc_amplitude = amplitude, edc_i = Scalar 0\<rparr>
   \<and> STPTransformer_init u_base tau_f tau_d
       = Inr \<lparr>stp_u_base = u_base, stp_tau_f = tau_f, stp_tau_d = tau_d,
              stp_x = Scalar 1, stp_u = Scalar u_base\<rparr>
   \<and> ExpDecayCurrent_forward \<lparr>edc_tau = 0, edc_amplitude = amplitude, edc_i = Scalar 0\<rparr> in_spike
       = (Inl ZeroDivisionError, \<lparr>edc_tau = 0, edc_amplitude = amplitude, edc_i = Scalar 0\<rparr>)
   \<and> STPTransformer_forward
        \<lparr>stp_u_base = u_base, stp_tau_f = tau_f, stp_tau_d = 0, stp_x = Scalar 1, stp_u = Scalar u_base\<rparr>
        in_spike
       = (Inl ZeroDivisionError,
          \<lparr>stp_u_base = u_base, stp_tau_f = tau_f, stp_tau_d = 0, stp_x = Scalar 1, stp_u = Scalar u_base\<rparr>)"
  by (simp add: ExpDecayCurrent_init_def STPTransformer_init_def ExpDecayCurrent_forward_def
        new_i_tau_zero STPTransformer_forward_def new_x_tau_zero)

text \<open>
  C4, as the specification states it, fails: \<open>ExpDecayCurrent(tau=0)\<close>,
  \<open>ExpDecayCurrent(tau=-1)\<close> and \<open>STPTransformer(0.5, tau_f=0, tau_d=-1)\<close> are
  constructed without an error.
\<close>

theorem constructors_accept_nonpositive_time_constants:
  "ExpDecayCurrent_init 0 1 = Inr \<lparr>edc_tau = 0, edc_amplitude = 1, edc_i = Scalar 0\<rparr>
   \<and> ExpDecayCurrent_init (- 1) 1 = Inr \<lparr>edc_tau = - 1, edc_amplitude = 1, edc_i = Scalar 0\<rparr>
   \<and> STPTransformer_init (1 / 2) 0 (- 1)
       = Inr \<lparr>stp_u_base = 1 / 2, stp_tau_f = 0, stp_tau_d = - 1, stp_x = Scalar 1, stp_u = Scalar (1 / 2)\<rparr>"
  by (simp add: ExpDecayCurrent_init_def STPTransformer_init_def)

subsection \<open>Reset\<close>

text \<open>
  C5. For each of the three classes and every history of calls of \<open>forward\<close> and
  \<open>reset\<close> on a constructed instance (calls that raise included), a second \<open>reset\<close>
  changes nothing after a first, and after \<open>reset\<close> the state holds the values of
  construction: \<open>SpikeCurrent\<close> has no state; \<open>ExpDecayCurrent\<close> is the constructed
  instance again, \<open>i = 0\<close>; every entry of \<open>x\<close> of an \<open>STPTransformer\<close> is 1 and
  every entry of \<open>u\<close> is \<open>u_base\<close>, the parameters being the constructed ones.
\<close>

theorem reset_idempotent_and_initial:
  "(SpikeCurrent_init amplitude = Inr sc \<longrightarrow>
      (let st = after_calls SpikeCurrent_forward SpikeCurrent_reset sc calls
       in SpikeCurrent_reset (SpikeCurrent_reset st) = SpikeCurrent_reset st
          \<and> SpikeCurrent_reset st = sc))
   \<and> (ExpDecayCurrent_init tau amplitude = Inr edc \<longrightarrow>
      (let st = after_calls ExpDecayCurrent_forward ExpDecayCurrent_reset edc calls
       in ExpDecayCurrent_reset (ExpDecayCurrent_reset st) = ExpDecayCurrent_reset st
          \<and> ExpDecayCurrent_reset st = edc))
   \<and> (STPTransformer_init u_base tau_f tau_d = Inr stp \<longrightarrow>
      (let st = after_calls STPTransformer_forward STPTransformer_reset stp calls
       in STPTransformer_reset (STPTransformer_reset st) = STPTransformer_reset st
          \<and> (\<forall>a \<in> set (entries (stp_x (STPTransformer_reset st))). a = 1)
          \<and> (\<forall>b \<in> set (entries (stp_u (STPTransformer_reset st))). b = u_base)
          \<and> stp_u_base (STPTransformer_reset st) = u_base
          \<and> stp_tau_f (STPTransformer_reset st) = tau_f
          \<and> stp_tau_d (STPTransformer_reset st) = tau_d))"
proof (intro conjI impI)
  show "let st = after_calls SpikeCurrent_forward SpikeCurrent_reset sc calls
       in SpikeCurrent_reset (SpikeCurrent_reset st) = SpikeCurrent_reset st
          \<and> SpikeCurrent_reset st = sc"
    by (simp add: sc_after_calls SpikeCurrent_reset_def BaseTransformer_reset_def)
next
  assume "ExpDecayCurrent_init tau amplitude = Inr edc"
  then have edc: "edc = \<lparr>edc_tau = tau, edc_amplitude = amplitude, edc_i = Scalar 0\<rparr>"
    by (simp add: ExpDecayCurrent_init_def)
  let ?st = "after_calls ExpDecayCurrent_forward ExpDecayCurrent_reset edc calls"
  have "edc_tau ?st = tau" and "edc_amplitude ?st = amplitude"
    using edc_after_calls[of edc calls] by (simp_all add: edc)
  then have "ExpDecayCurrent_reset ?st = edc"
    by (simp add: ExpDecayCurrent_reset_def edc)
  then show "let st = ?st
       in ExpDecayCurrent_reset (ExpDecayCurrent_reset st) = ExpDecayCurrent_reset st
          \<and> ExpDecayCurrent_reset st = edc"
    by (simp add: ExpDecayCurrent_reset_def)
next
  assume "STPTransformer_init u_base tau_f tau_d = Inr stp"
  then have stp: "stp = \<lparr>stp_u_base = u_base, stp_tau_f = tau_f, stp_tau_d = tau_d,
        stp_x = Scalar 1, stp_u = Scalar u_base\<rparr>"
    by (simp add: STPTransformer_init_def)
  let ?st = "after_calls STPTransformer_forward STPTransformer_reset stp calls"
  have "initial_or_tensor 1 (stp_x stp)" and "initial_or_tensor (stp_u_base stp) (stp_u stp)"
    by (simp_all add: stp)
  from stp_after_calls[OF this, of calls]
  have x: "initial_or_tensor 1 (stp_x ?st)" and u: "initial_or_tensor u_base (stp_u ?st)"
    and keep: "stp_u_base ?st = u_base" "stp_tau_f ?st = tau_f" "stp_tau_d ?st = tau_d"
    by (simp_all add: stp)
  have idem: "STPTransformer_reset (STPTransformer_reset ?st) = STPTransformer_reset ?st"
    by (simp add: STPTransformer_reset_def fill_fill)
  have ex: "\<forall>a \<in> set (entries (stp_x (STPTransformer_reset ?st))). a = 1"
    using entries_fill[OF x] by (simp add: STPTransformer_reset_def)
  have eu: "\<forall>b \<in> set (entries (stp_u (STPTransformer_reset ?st))). b = u_base"
    using entries_fill[OF u] by (simp add: STPTransformer_reset_def keep)
  show "let st = ?st
       in STPTransformer_reset (STPTransformer_reset st) = STPTransformer_reset st
          \<and> (\<forall>a \<in> set (entries (stp_x (STPTransformer_reset st))). a = 1)
          \<and> (\<forall>b \<in> set (entries (stp_u (STPTransformer_reset st))). b = u_base)
          \<and> stp_u_base (STPTransformer_reset st) = u_base
          \<and> stp_tau_f (STPTransformer_reset st) = tau_f
          \<and> stp_tau_d (STPTransformer_reset st) = tau_d"
    unfolding Let_def using idem ex eu keep by (simp add: STPTransformer_reset_def)
qed

theorem reset_idempotent_and_initial_witness:
  "SpikeCurrent_init 3 = Inr \<lparr>sc_amplitude = 3\<rparr>
   \<and> SpikeCurrent_reset (after_calls SpikeCurrent_forward SpikeCurrent_reset \<lparr>sc_amplitude = 3\<rparr>
        [Forward [True, False], Reset, Forward [False, True]]) = \<lparr>sc_amplitude = 3\<rparr>
   \<and> ExpDecayCurrent_init 10 1 = Inr \<lparr>edc_tau = 10, edc_amplitude = 1, edc_i = Scalar 0\<rparr>
   \<and> ExpDecayCurrent_reset (after_calls ExpDecayCurrent_forward ExpDecayCurrent_reset
        \<lparr>edc_tau = 10, edc_amplitude = 1, edc_i = Scalar 0\<rparr>
        [Forward [True, False], Reset, Forward [False, True]])
       = \<lparr>edc_tau = 10, edc_amplitude = 1, edc_i = Scalar 0\<rparr>
   \<and> STPTransformer_init (1 / 2) 50 100
       = Inr \<lparr>stp_u_base = 1 / 2, stp_tau_f = 50, stp_tau_d = 100, stp_x = Scalar 1, stp_u = Scalar (1 / 2)\<rparr>
   \<and> STPTransformer_reset (STPTransformer_reset (after_calls STPTransformer_forward STPTransformer_reset
        \<lparr>stp_u_base = 1 / 2, stp_tau_f = 50, stp_tau_d = 100, stp_x = Scalar 1, stp_u = Scalar (1 / 2)\<rparr>
        [Forward [True, False], Reset, Forward [False, True]]))
       = STPTransformer_reset (after_calls STPTransformer_forward STPTransformer_reset
        \<lparr>stp_u_base = 1 / 2, stp_tau_f = 50, stp_tau_d = 100, stp_x = Scalar 1, stp_u = Scalar (1 / 2)\<rparr>
        [Forward [True, False], Reset, Forward [False, True]])
   \<and> stp_u_base (STPTransformer_reset (after_calls STPTransformer_forward STPTransformer_reset
        \<lparr>stp_u_base = 1 / 2, stp_tau_f = 50, stp_tau_d = 100, stp_x = Scalar 1, stp_u = Scalar (1 / 2)\<rparr>
        [Forward [True, False], Reset, Forward [False, True]])) = 1 / 2
   \<and> STPTransformer_reset (after_calls STPTransformer_forward STPTransformer_reset
        \<lparr>stp_u_base = 1 / 2, stp_tau_f = 50, stp_tau_d = 100, stp_x = Scalar 1, stp_u = Scalar (1 / 2)\<rparr>
        [Forward [True, False], Reset, Forward [False, True]])
       = \<lparr>stp_u_base = 1 / 2, stp_tau_f = 50, stp_tau_d = 100,
          stp_x = Tensor [1, 1], stp_u = Tensor [1 / 2, 1 / 2]\<rparr>"
proof -
  have after: "STPTransformer_reset (after_calls STPTransformer_forward STPTransformer_reset
        \<lparr>stp_u_base = 1 / 2, stp_tau_f = 50, stp_tau_d = 100, stp_x = Scalar 1, stp_u = Scalar (1 / 2)\<rparr>
        [Forward [True, False], Reset, Forward [False, True]])
       = \<lparr>stp_u_base = 1 / 2, stp_tau_f = 50, stp_tau_d = 100,
          stp_x = Tensor [1, 1], stp_u = Tensor [1 / 2, 1 / 2]\<rparr>"
    by (simp add: after_calls_def stp_forward_fits STPTransformer_reset_def)
  have sc: "SpikeCurrent_init 3 = Inr \<lparr>sc_amplitude = 3\<rparr>"
    by (simp add: SpikeCurrent_init_def)
  have edc: "ExpDecayCurrent_init 10 1 = Inr \<lparr>edc_tau = 10, edc_amplitude = 1, edc_i = Scalar 0\<rparr>"
    by (simp add: ExpDecayCurrent_init_def)
  have stp: "STPTransformer_init (1 / 2) 50 100
       = Inr \<lparr>stp_u_base = 1 / 2, stp_tau_f = 50, stp_tau_d = 100, stp_x = Scalar 1, stp_u = Scalar (1 / 2)\<rparr>"
    by (simp add: STPTransformer_init_def)
  note inst = reset_idempotent_and_initial
    [where calls = "[Forward [True, False], Reset, Forward [False, True]]"
       and amplitude = 3 and sc = "\<lparr>sc_amplitude = 3\<rparr>", unfolded Let_def]
    reset_idempotent_and_initial
    [where calls = "[Forward [True, False], Reset, Forward [False, True]]"
       and amplitude = 1 and tau = 10
       and edc = "\<lparr>edc_tau = 10, edc_amplitude = 1, edc_i = Scalar 0\<rparr>"
       and u_base = "1 / 2" and tau_f = 50 and tau_d = 100
       and stp = "\<lparr>stp_u_base = 1 / 2, stp_tau_f = 50, stp_tau_d = 100, stp_x = Scalar 1, stp_u = Scalar (1 / 2)\<rparr>",
       unfolded Let_def]
  from inst(1) sc inst(2) edc stp after show ?thesis
    by blast
qed

text \<open>
  C7, as the code has it. \<open>ExpDecayCurrent.reset\<close> rebinds \<open>i\<close> to the Python number
  0, whatever a prior step has stored: the instance is the one the constructor returns
  for the same parameters, no shape is kept, and the next step (with a nonzero \<open>tau\<close>)
  accepts a sample of any size and returns \<open>amplitude * s\<close> for each of its units.
\<close>

theorem ExpDecayCurrent_reset_is_fresh_instance:
  "ExpDecayCurrent_init (edc_tau self) (edc_amplitude self) = Inr (ExpDecayCurrent_reset self)
   \<and> edc_i (ExpDecayCurrent_reset self) = Scalar 0
   \<and> (edc_tau self \<noteq> 0 \<longrightarrow>
        fst (ExpDecayCurrent_forward (ExpDecayCurrent_reset self) in_spike)
          = Inr (Tensor (map (\<lambda>s. edc_amplitude self * of_bool s) in_spike)))"
proof (intro conjI impI)
  show "ExpDecayCurrent_init (edc_tau self) (edc_amplitude self) = Inr (ExpDecayCurrent_reset self)"
    by (simp add: ExpDecayCurrent_init_def ExpDecayCurrent_reset_def)
  show "edc_i (ExpDecayCurrent_reset self) = Scalar 0"
    by (simp add: ExpDecayCurrent_reset_def)
  assume "edc_tau self \<noteq> 0"
  then show "fst (ExpDecayCurrent_forward (ExpDecayCurrent_reset self) in_spike)
          = Inr (Tensor (map (\<lambda>s. edc_amplitude self * of_bool s) in_spike))"
    by (auto simp: ExpDecayCurrent_reset_def edc_forward_fits spec_i_next_def intro!: nth_equalityI)
qed

theorem ExpDecayCurrent_reset_is_fresh_instance_witness:
  "ExpDecayCurrent_init 10 1 = Inr (ExpDecayCurrent_reset \<lparr>edc_tau = 10, edc_amplitude = 1, edc_i = Tensor [1, 0]\<rparr>)
   \<and> edc_tau \<lparr>edc_tau = 10, edc_amplitude = 1, edc_i = Tensor [1, 0]\<rparr> \<noteq> 0
   \<and> fst (ExpDecayCurrent_forward
            (ExpDecayCurrent_reset \<lparr>edc_tau = 10, edc_amplitude = 1, edc_i = Tensor [1, 0]\<rparr>)
            [True, False, True])
       = Inr (Tensor [1, 0, 1])"
  using ExpDecayCurrent_reset_is_fresh_instance
    [of "\<lparr>edc_tau = 10, edc_amplitude = 1, edc_i = Tensor [1, 0]\<rparr>" "[True, False, True]"]
  by simp

text \<open>
  C7, as the specification states it, fails. A step on a sample of two units leaves the
  state \<open>[1, 0]\<close>; after \<open>reset\<close> the state is not the tensor \<open>[0, 0]\<close>, and a
  sample of three units is accepted.
\<close>

theorem ExpDecayCurrent_reset_drops_shape:
  "ExpDecayCurrent_forward \<lparr>edc_tau = 10, edc_amplitude = 1, edc_i = Scalar 0\<rparr> [True, False]
     = (Inr (Tensor [1, 0]), \<lparr>edc_tau = 10, edc_amplitude = 1, edc_i = Tensor [1, 0]\<rparr>)
   \<and> edc_i (ExpDecayCurrent_reset \<lparr>edc_tau = 10, edc_amplitude = 1, edc_i = Tensor [1, 0]\<rparr>)
       \<noteq> Tensor [0, 0]
   \<and> ExpDecayCurrent_forward
        (ExpDecayCurrent_reset \<lparr>edc_tau = 10, edc_amplitude = 1, edc_i = Tensor [1, 0]\<rparr>)
        [True, True, True]
       = (Inr (Tensor [1, 1, 1]), \<lparr>edc_tau = 10, edc_amplitude = 1, edc_i = Tensor [1, 1, 1]\<rparr>)"
  by (simp add: ExpDecayCurrent_reset_def edc_forward_fits spec_i_next_def)

subsection \<open>Samples of another size\<close>




subsection \<open>Units of a batch\<close>

text \<open>
  C9. For each of the three classes: an instance is constructed and steps through spike
  samples of \<open>n\<close> units each; a second instance with the same parameters steps through
  the spikes of unit \<open>k\<close> alone. At every step the second returns (or raises) what the
  first returns for unit \<open>k\<close>.
\<close>

theorem batch_independence:
  assumes "\<forall>in_spike \<in> set trains. length in_spike = n" and "k < n"
  shows "(SpikeCurrent_init amplitude = Inr sc \<longrightarrow>
            fst (steps SpikeCurrent_forward sc (map (\<lambda>in_spike. [in_spike ! k]) trains))
              = map (unit_out k) (fst (steps SpikeCurrent_forward sc trains)))
       \<and> (ExpDecayCurrent_init tau amplitude = Inr edc \<longrightarrow>
            fst (steps ExpDecayCurrent_forward edc (map (\<lambda>in_spike. [in_spike ! k]) trains))
              = map (unit_out k) (fst (steps ExpDecayCurrent_forward edc trains)))
       \<and> (STPTransformer_init u_base tau_f tau_d = Inr stp \<longrightarrow>
            fst (steps STPTransformer_forward stp (map (\<lambda>in_spike. [in_spike ! k]) trains))
              = map (unit_out k) (fst (steps STPTransformer_forward stp trains)))"
proof (intro conjI impI)
  show "fst (steps SpikeCurrent_forward sc (map (\<lambda>in_spike. [in_spike ! k]) trains))
              = map (unit_out k) (fst (steps SpikeCurrent_forward sc trains))"
    by (rule sc_steps_unit[OF assms])
next
  assume "ExpDecayCurrent_init tau amplitude = Inr edc"
  then have i: "edc_i edc = Scalar 0"
    by (auto simp: ExpDecayCurrent_init_def)
  then have u: "ExpDecayCurrent_unit k edc = edc"
    by (simp add: ExpDecayCurrent_unit_def)
  from edc_steps_unit[OF assms, of edc] i u
  show "fst (steps ExpDecayCurrent_forward edc (map (\<lambda>in_spike. [in_spike ! k]) trains))
              = map (unit_out k) (fst (steps ExpDecayCurrent_forward edc trains))"
    by simp
next
  assume "STPTransformer_init u_base tau_f tau_d = Inr stp"
  then have x: "stp_x stp = Scalar 1" and u: "stp_u stp = Scalar u_base"
    by (auto simp: STPTransformer_init_def)
  then have un: "STPTransformer_unit k stp = stp"
    by (simp add: STPTransformer_unit_def)
  from stp_steps_unit[OF assms, of stp] x u un
  show "fst (steps STPTransformer_forward stp (map (\<lambda>in_spike. [in_spike ! k]) trains))
              = map (unit_out k) (fst (steps STPTransformer_forward stp trains))"
    by simp
qed

theorem batch_independence_witness:
  "length [True, False] = 2 \<and> length [False, True] = 2 \<and> (1::nat) < 2
   \<and> SpikeCurrent_init 3 = Inr \<lparr>sc_amplitude = 3\<rparr>
   \<and> fst (steps SpikeCurrent_forward \<lparr>sc_amplitude = 3\<rparr> [[True, False], [False, True]])
       = [Inr (Tensor [3, 0]), Inr (Tensor [0, 3])]
   \<and> fst (steps SpikeCurrent_forward \<lparr>sc_amplitude = 3\<rparr> [[False], [True]])
       = map (unit_out 1) [Inr (Tensor [3, 0]), Inr (Tensor [0, 3])]
   \<and> ExpDecayCurrent_init 10 1 = Inr \<lparr>edc_tau = 10, edc_amplitude = 1, edc_i = Scalar 0\<rparr>
   \<and> fst (steps ExpDecayCurrent_forward \<lparr>edc_tau = 10, edc_amplitude = 1, edc_i = Scalar 0\<rparr>
             [[True, False], [False, True]])
       = [Inr (Tensor [1, 0]), Inr (Tensor [9 / 10, 1])]
   \<and> fst (steps ExpDecayCurrent_forward \<lparr>edc_tau = 10, edc_amplitude = 1, edc_i = Scalar 0\<rparr>
             [[False], [True]])
       = map (unit_out 1) [Inr (Tensor [1, 0]), Inr (Tensor [9 / 10, 1])]
   \<and> STPTransformer_init (1 / 2) 50 100
       = Inr \<lparr>stp_u_base = 1 / 2, stp_tau_f = 50, stp_tau_d = 100, stp_x = Scalar 1, stp_u = Scalar (1 / 2)\<rparr>
   \<and> fst (steps STPTransformer_forward
             \<lparr>stp_u_base = 1 / 2, stp_tau_f = 50, stp_tau_d = 100, stp_x = Scalar 1, stp_u = Scalar (1 / 2)\<rparr>
             [[True, False], [False, True]])
       = [Inr (Tensor [3 / 8, 0]), Inr (Tensor [0, 3 / 8])]
   \<and> fst (steps STPTransformer_forward
             \<lparr>stp_u_base = 1 / 2, stp_tau_f = 50, stp_tau_d = 100, stp_x = Scalar 1, stp_u = Scalar (1 / 2)\<rparr>
             [[False], [True]])
       = map (unit_out 1) [Inr (Tensor [3 / 8, 0]), Inr (Tensor [0, 3 / 8])]"
proof -
  have sc: "fst (steps SpikeCurrent_forward \<lparr>sc_amplitude = 3\<rparr> [[True, False], [False, True]])
       = [Inr (Tensor [3, 0]), Inr (Tensor [0, 3])]"
    by (simp add: SpikeCurrent_forward_def py_ops)
  have edc: "fst (steps ExpDecayCurrent_forward \<lparr>edc_tau = 10, edc_amplitude = 1, edc_i = Scalar 0\<rparr>
             [[True, False], [False, True]])
       = [Inr (Tensor [1, 0]), Inr (Tensor [9 / 10, 1])]"
    by (simp add: edc_forward_fits spec_i_next_def)
  have stp: "fst (steps STPTransformer_forward
             \<lparr>stp_u_base = 1 / 2, stp_tau_f = 50, stp_tau_d = 100, stp_x = Scalar 1, stp_u = Scalar (1 / 2)\<rparr>
             [[True, False], [False, True]])
       = [Inr (Tensor [3 / 8, 0]), Inr (Tensor [0, 3 / 8])]"
    by (simp add: stp_forward_fits spec_x_next_def spec_u_next_def spec_output_def)
  have trains: "\<forall>in_spike \<in> set [[True, False], [False, True]]. length in_spike = 2"
    and k: "(1::nat) < 2"
    by simp_all
  note inst = batch_independence[OF trains k,
      where amplitude = 3 and sc = "\<lparr>sc_amplitude = 3\<rparr>"]
    batch_independence[OF trains k,
      where amplitude = 1 and tau = 10
       and edc = "\<lparr>edc_tau = 10, edc_amplitude = 1, edc_i = Scalar 0\<rparr>"
       and u_base = "1 / 2" and tau_f = 50 and tau_d = 100
       and stp = "\<lparr>stp_u_base = 1 / 2, stp_tau_f = 50, stp_tau_d = 100, stp_x = Scalar 1, stp_u = Scalar (1 / 2)\<rparr>"]
  from inst show ?thesis
    unfolding sc edc stp
    by (simp add: SpikeCurrent_init_def ExpDecayCurrent_init_def STPTransformer_init_def)
qed

subsection \<open>The initial state and a step without spikes\<close>



end
